theory Spec2Isabelle
  imports Main "HOL-Library.Word"
begin

section \<open>Data model of 443d.go\<close>

text \<open>
  The embedding follows \<^verbatim>\<open>src/443d.go\<close>. Go strings are byte strings and become
  \<^typ>\<open>string\<close>; \<^verbatim>\<open>[]byte\<close> becomes a list of 8-bit words. The two \<^verbatim>\<open>Seconds\<close>
  fields have Go type \<^verbatim>\<open>int\<close>; the program only compares them with 0 and prints them,
  it never computes with them, so they are modelled as \<^typ>\<open>int\<close> (negative values
  included, as the YAML decoder accepts them).
\<close>

type_synonym bytes = "8 word list"

subsection \<open>type Config (lines 24-48)\<close>

record Hsts_cfg =
  Hsts_Seconds :: int
  Hsts_Subdomains :: bool

record Hpkp_cfg =
  Hpkp_Seconds :: int
  Hpkp_Subdomains :: bool
  Hpkp_BackupKeys :: "string list"

record Tls_cfg =
  Tls_Listen :: string
  Tls_Cert :: string
  Tls_Key :: string
  Tls_Ssh :: string
  Tls_Hsts :: Hsts_cfg
  Tls_Hpkp :: Hpkp_cfg

text \<open>
  Modelled from the spec: the type \<^verbatim>\<open>HttpBackend\<close>, which is declared outside
  \<^verbatim>\<open>443d.go\<close>. A virtual host entry is an ordered list of hostname patterns and an
  opaque request handler; these are the two fields, \<^verbatim>\<open>Hostnames\<close> and \<^verbatim>\<open>Handler\<close>,
  that \<^verbatim>\<open>443d.go\<close> reads. The handler is an \<^verbatim>\<open>http.Handler\<close> the program never looks
  into, so its type is a parameter \<^typ>\<open>'h\<close>.
\<close>

record 'h HttpBackend =
  Hostnames :: "string list"
  Handler :: 'h

record 'h Config =
  Tls :: Tls_cfg
  Http_Listen :: string
  Redirector_Listen :: string
  Hosts :: "'h HttpBackend list"
  DefaultHost :: string

subsection \<open>Key material and the package-level variables (lines 51-54)\<close>

text \<open>Of \<^verbatim>\<open>x509.Certificate\<close> the program reads \<^verbatim>\<open>RawSubjectPublicKeyInfo\<close> only.\<close>

record x509_Certificate =
  RawSubjectPublicKeyInfo :: bytes

text \<open>
  \<^verbatim>\<open>tls.Certificate\<close>: the chain of DER certificates and the parsed \<^verbatim>\<open>Leaf\<close>
  (\<^verbatim>\<open>nil\<close> until it is set). In \<^verbatim>\<open>crypto/tls\<close> the chain is stored leaf first:
  element 0 is the end-entity certificate, the following elements are the issuing
  authorities.
\<close>

record tls_Certificate =
  Certificate :: "bytes list"
  Leaf :: "x509_Certificate option"

record 'h globals =
  config :: "'h Config"
  tlsKeyPair :: tls_Certificate
  hstsHeader :: string
  hpkpHeader :: string
  logged :: "string list"

text \<open>
  The library functions \<^verbatim>\<open>processConfig\<close> calls are parameters of the model: loading
  a key pair from two paths, parsing a DER certificate, SHA-256 and standard base64.
  A failing call returns the text of its error.
\<close>

record library =
  LoadX509KeyPair :: "string \<Rightarrow> string \<Rightarrow> string + tls_Certificate"
  ParseCertificate :: "bytes \<Rightarrow> string + x509_Certificate"
  Sum256 :: "bytes \<Rightarrow> bytes"
  EncodeToString :: "bytes \<Rightarrow> string"

text \<open>
  \<^verbatim>\<open>log.Fatalf\<close> ends the process with a message; an index out of range and the
  dereference of a \<^verbatim>\<open>nil\<close> pointer panic.
\<close>

datatype fatal = Fatalf string | Panic_index_out_of_range | Panic_nil_dereference

section \<open>Formatting\<close>

text \<open>The verb \<^verbatim>\<open>%d\<close> of \<^verbatim>\<open>fmt.Sprintf\<close>: decimal digits, a minus sign when negative.\<close>

fun show_nat :: "nat \<Rightarrow> string" where
  "show_nat n =
     (if n < 10 then [''0123456789'' ! n]
      else show_nat (n div 10) @ [''0123456789'' ! (n mod 10)])"

declare show_nat.simps [simp del]

definition fmt_d :: "int \<Rightarrow> string" where
  "fmt_d i = (if i < 0 then ''-'' @ show_nat (nat (- i)) else show_nat (nat i))"

text \<open>The double quote that the format strings write as \<^verbatim>\<open>\"\<close>.\<close>

definition dquote :: string where
  "dquote = [CHR 0x22]"

section \<open>processConfig (lines 166-201)\<close>

text \<open>Lines 180-185: the assignment to \<^verbatim>\<open>hstsHeader\<close>.\<close>

definition set_hstsHeader :: "'h globals \<Rightarrow> 'h globals" where
  "set_hstsHeader g =
     (let hsts = Tls_Hsts (Tls (config g)) in
      if Hsts_Seconds hsts \<noteq> 0 then
        (let g1 = g\<lparr>hstsHeader := ''max-age='' @ fmt_d (Hsts_Seconds hsts)\<rparr> in
         if Hsts_Subdomains hsts
         then g1\<lparr>hstsHeader := hstsHeader g1 @ ''; includeSubdomains''\<rparr>
         else g1)
      else g)"

text \<open>Lines 192-194: the loop over \<^verbatim>\<open>BackupKeys\<close>, appending one clause per key.\<close>

fun append_backup_keys :: "string \<Rightarrow> string list \<Rightarrow> string" where
  "append_backup_keys h [] = h"
| "append_backup_keys h (k # ks) =
     append_backup_keys (h @ ''; pin-sha256='' @ dquote @ k @ dquote) ks"

text \<open>
  Lines 186-199: the assignment to \<^verbatim>\<open>hpkpHeader\<close>. Line 190 dereferences
  \<^verbatim>\<open>tlsKeyPair.Leaf\<close>, which line 176 has just set; the \<^verbatim>\<open>nil\<close> case is kept as
  the panic it would be.
\<close>

definition set_hpkpHeader :: "library \<Rightarrow> 'h globals \<Rightarrow> fatal + 'h globals" where
  "set_hpkpHeader lib g =
     (let hpkp = Tls_Hpkp (Tls (config g)) in
      if Hpkp_Seconds hpkp \<noteq> 0 then
        (let g1 = (if length (Hpkp_BackupKeys hpkp) < 1
                   then g\<lparr>logged := logged g @ [''You should add a backup key to HPKP backup_keys!\<newline>'']\<rparr>
                   else g) in
         case Leaf (tlsKeyPair g1) of
           None \<Rightarrow> Inl Panic_nil_dereference
         | Some leaf \<Rightarrow>
             (let hash = Sum256 lib (RawSubjectPublicKeyInfo leaf);
                  h1 = ''pin-sha256='' @ dquote @ EncodeToString lib hash @ dquote;
                  h2 = append_backup_keys h1 (Hpkp_BackupKeys hpkp);
                  h3 = h2 @ ''; max-age='' @ fmt_d (Hpkp_Seconds hpkp);
                  h4 = (if Hpkp_Subdomains hpkp then h3 @ ''; includeSubdomains'' else h3)
              in Inr (g1\<lparr>hpkpHeader := h4\<rparr>)))
      else Inr g)"

definition processConfig :: "library \<Rightarrow> 'h globals \<Rightarrow> fatal + 'h globals" where
  "processConfig lib g0 =
     (let g1 = (if DefaultHost (config g0) = ''''
                then g0\<lparr>config := (config g0)\<lparr>DefaultHost := ''localhost''\<rparr>\<rparr>
                else g0);
          tls = Tls (config g1)
      in
      if Tls_Cert tls \<noteq> '''' \<and> Tls_Key tls \<noteq> '''' then
        (case LoadX509KeyPair lib (Tls_Cert tls) (Tls_Key tls) of
           Inl err \<Rightarrow> Inl (Fatalf (''Error reading TLS key/cert: '' @ err @ '' :-(''))
         | Inr kp \<Rightarrow>
             (if Certificate kp = [] then Inl Panic_index_out_of_range
              else
                (case ParseCertificate lib (Certificate kp ! (length (Certificate kp) - 1)) of
                   Inl err \<Rightarrow> Inl (Fatalf (''Error parsing TLS cert: '' @ err @ '' :-(''))
                 | Inr cert \<Rightarrow>
                     set_hpkpHeader lib
                       (set_hstsHeader (g1\<lparr>tlsKeyPair := kp\<lparr>Leaf := Some cert\<rparr>\<rparr>)))))
      else Inr g1)"

section \<open>Request handlers\<close>

text \<open>
  Of \<^verbatim>\<open>http.Request\<close> the handlers read \<^verbatim>\<open>Host\<close> and \<^verbatim>\<open>RequestURI\<close>;
  \<^verbatim>\<open>httpHandler\<close> also writes \<^verbatim>\<open>Host\<close>. \<^verbatim>\<open>RequestURI\<close> is the request target of
  the request line exactly as the client sent it. \<^verbatim>\<open>net/http\<close> stores the parsed
  target beside it in \<^verbatim>\<open>URL\<close>, of which the path and the query are kept here;
  \<^verbatim>\<open>443d.go\<close> never reads \<^verbatim>\<open>URL\<close>. For a target in origin form
  (\<^verbatim>\<open>GET /p?q=1\<close>) the raw target is the path and query; for a target in absolute
  form (\<^verbatim>\<open>GET http://b.example/p?q=1\<close>) it is the whole URL, and \<^verbatim>\<open>Host\<close> is the
  host of that URL.
\<close>

record url =
  Path :: string
  RawQuery :: string

record request =
  Host :: string
  RequestURI :: string
  URL :: url

text \<open>
  A handler acts on its \<^verbatim>\<open>http.ResponseWriter\<close> through calls only, so a handler is
  modelled by the list of calls it makes, in order: \<^verbatim>\<open>w.Header().Add(name, value)\<close>,
  the call \<^verbatim>\<open>ServeHTTP(w, r)\<close> of a backend handler with the request it is given,
  and \<^verbatim>\<open>http.Redirect(w, r, url, code)\<close>. A handler that returns the empty list has
  not touched the response and has invoked nobody.
\<close>

datatype 'h response_call =
  Header_Add string string
| ServeHTTP 'h request
| Redirect string nat

definition StatusMovedPermanently :: nat where
  "StatusMovedPermanently = 301"

text \<open>
  Lines 62-68: the loop over the hostnames of one entry. \<^verbatim>\<open>glob.Glob\<close> comes from an
  imported package and is a parameter. \<open>Some\<close> is the \<^verbatim>\<open>return\<close> of line 66 with the
  calls made before it, \<open>None\<close> is the loop running to its end.
\<close>

fun serve_hostnames ::
  "(string \<Rightarrow> string \<Rightarrow> bool) \<Rightarrow> 'h HttpBackend \<Rightarrow> string list \<Rightarrow> request
    \<Rightarrow> 'h response_call list option" where
  "serve_hostnames Glob hostcnf [] r = None"
| "serve_hostnames Glob hostcnf (hostn # rest) r =
     (if Glob hostn (Host r) then Some [ServeHTTP (Handler hostcnf) r]
      else serve_hostnames Glob hostcnf rest r)"

text \<open>Lines 60-69: the loop over \<^verbatim>\<open>config.Hosts\<close>.\<close>

fun serve_hosts ::
  "(string \<Rightarrow> string \<Rightarrow> bool) \<Rightarrow> 'h HttpBackend list \<Rightarrow> request
    \<Rightarrow> 'h response_call list" where
  "serve_hosts Glob [] r = []"
| "serve_hosts Glob (hostcnf # rest) r =
     (case serve_hostnames Glob hostcnf (Hostnames hostcnf) r of
        Some calls \<Rightarrow> calls
      | None \<Rightarrow> serve_hosts Glob rest r)"

text \<open>Lines 56-70.\<close>

definition httpHandler ::
  "(string \<Rightarrow> string \<Rightarrow> bool) \<Rightarrow> 'h globals \<Rightarrow> request \<Rightarrow> 'h response_call list" where
  "httpHandler Glob g r =
     (let r1 = (if Host r = '''' then r\<lparr>Host := DefaultHost (config g)\<rparr> else r)
      in serve_hosts Glob (Hosts (config g)) r1)"

text \<open>Lines 72-74.\<close>

definition redirHandler :: "request \<Rightarrow> 'h response_call list" where
  "redirHandler r = [Redirect (''https://'' @ Host r @ RequestURI r) StatusMovedPermanently]"

text \<open>Lines 113-121.\<close>

definition secHandler ::
  "(string \<Rightarrow> string \<Rightarrow> bool) \<Rightarrow> 'h globals \<Rightarrow> request \<Rightarrow> 'h response_call list" where
  "secHandler Glob g r =
     (if Hsts_Seconds (Tls_Hsts (Tls (config g))) \<noteq> 0
      then [Header_Add ''Strict-Transport-Security'' (hstsHeader g)] else [])
     @ (if Hpkp_Seconds (Tls_Hpkp (Tls (config g))) \<noteq> 0
        then [Header_Add ''Public-Key-Pins'' (hpkpHeader g)] else [])
     @ httpHandler Glob g r"

section \<open>The three endpoint tasks of main (lines 81-130)\<close>

datatype endpoint = Redirector_server | HTTP_server | TLS_server

text \<open>The \<^verbatim>\<open>Handler\<close> field of the \<^verbatim>\<open>http.Server\<close> of each task (lines 87, 98, 122).\<close>

fun endpoint_handler ::
  "(string \<Rightarrow> string \<Rightarrow> bool) \<Rightarrow> 'h globals \<Rightarrow> endpoint \<Rightarrow> request
    \<Rightarrow> 'h response_call list" where
  "endpoint_handler Glob g Redirector_server r = redirHandler r"
| "endpoint_handler Glob g HTTP_server r = httpHandler Glob g r"
| "endpoint_handler Glob g TLS_server r = secHandler Glob g r"

text \<open>
  What a task does, in order: it logs, binds an address (\<^verbatim>\<open>net.Listen\<close>), dies in
  \<^verbatim>\<open>log.Fatalf\<close>, or serves on the bound listener until \<^verbatim>\<open>srv.Serve\<close> returns.
\<close>

datatype task_step =
  Log_Printf string
| Net_Listen string
| Log_Fatalf string
| Srv_Serve endpoint string

text \<open>
  Lines 134-145: \<^verbatim>\<open>listen\<close> followed by \<^verbatim>\<open>serve\<close>. Whether the address can be bound
  is decided by the operating system: \<open>net_Listen addr\<close> is \<open>Some err\<close> when it cannot.
\<close>

definition listen_and_serve ::
  "(string \<Rightarrow> string option) \<Rightarrow> endpoint \<Rightarrow> string \<Rightarrow> string \<Rightarrow> task_step list" where
  "listen_and_serve net_Listen ep name addr =
     (case net_Listen addr of
        Some err \<Rightarrow> [Net_Listen addr, Log_Fatalf (err @ '' :-(\<newline>'')]
      | None \<Rightarrow>
          [Net_Listen addr,
           Log_Printf (''Starting the '' @ name @ '' on tcp '' @ addr @ ''\<newline>''),
           Srv_Serve ep addr])"

text \<open>Lines 81-91.\<close>

definition redirector_task :: "(string \<Rightarrow> string option) \<Rightarrow> 'h globals \<Rightarrow> task_step list" where
  "redirector_task net_Listen g =
     (let addr = Redirector_Listen (config g) in
      if addr = '''' then [Log_Printf ''No listen address for the Redirector server \<newline>'']
      else listen_and_serve net_Listen Redirector_server ''Redirector server'' addr)"

text \<open>Lines 92-102.\<close>

definition http_task :: "(string \<Rightarrow> string option) \<Rightarrow> 'h globals \<Rightarrow> task_step list" where
  "http_task net_Listen g =
     (let addr = Http_Listen (config g) in
      if addr = '''' then [Log_Printf ''No listen address for the HTTP server \<newline>'']
      else listen_and_serve net_Listen HTTP_server ''HTTP server'' addr)"

text \<open>
  Lines 103-130. Between the two early returns and \<^verbatim>\<open>listen\<close> the task only builds
  values (the handler, the server, the TLS configuration with \<^verbatim>\<open>tlsKeyPair\<close>, the
  demultiplexing listener); none of that can fail or return.
\<close>

definition tls_task :: "(string \<Rightarrow> string option) \<Rightarrow> 'h globals \<Rightarrow> task_step list" where
  "tls_task net_Listen g =
     (let addr = Tls_Listen (Tls (config g)) in
      if addr = '''' then [Log_Printf ''No listen address for the TLS server \<newline>'']
      else if Tls_Cert (Tls (config g)) = '''' \<and> Tls_Key (Tls (config g)) = ''''
      then [Log_Printf ''No keypair for the TLS server \<newline>'']
      else listen_and_serve net_Listen TLS_server ''TLS server'' addr)"

section \<open>Reference notions for the header values\<close>



section \<open>Reference notions for the handlers\<close>

text \<open>
  The headers a handler has added when it makes its first call that is not a
  \<open>Header().Add\<close>, that is, the headers in place when a backend handler or
  \<open>http.Redirect\<close> starts to write the response; and the calls from that point on.
\<close>

fun headers_before_serving :: "'h response_call list \<Rightarrow> (string \<times> string) list" where
  "headers_before_serving (Header_Add n v # cs) = (n, v) # headers_before_serving cs"
| "headers_before_serving cs = []"

fun calls_after_headers :: "'h response_call list \<Rightarrow> 'h response_call list" where
  "calls_after_headers (Header_Add n v # cs) = calls_after_headers cs"
| "calls_after_headers cs = cs"


section \<open>Concrete inputs\<close>

text \<open>
  A stand-in library for running the model: loading always succeeds with a chain of one
  certificate, the key info of a certificate is its DER bytes, the digest of the example
  encodes as \<^verbatim>\<open>ABC=\<close>.
\<close>

definition example_load :: "string \<Rightarrow> string \<Rightarrow> string + tls_Certificate" where
  "example_load certFile keyFile = Inr \<lparr>Certificate = [[0x30, 0x82]], Leaf = None\<rparr>"

definition example_parse :: "bytes \<Rightarrow> string + x509_Certificate" where
  "example_parse der = Inr \<lparr>RawSubjectPublicKeyInfo = der\<rparr>"

definition example_sum256 :: "bytes \<Rightarrow> bytes" where
  "example_sum256 b = b"

definition example_encode :: "bytes \<Rightarrow> string" where
  "example_encode b = ''ABC=''"

definition example_library :: library where
  "example_library =
     \<lparr>LoadX509KeyPair = example_load, ParseCertificate = example_parse,
      Sum256 = example_sum256, EncodeToString = example_encode\<rparr>"

text \<open>A configuration as \<^verbatim>\<open>readConfig\<close> leaves it; backend handlers are named by strings.\<close>

definition example_config :: "string Config" where
  "example_config =
     \<lparr>Tls = \<lparr>Tls_Listen = '':443'', Tls_Cert = ''cert.pem'', Tls_Key = ''key.pem'',
              Tls_Ssh = ''127.0.0.1:22'',
              Tls_Hsts = \<lparr>Hsts_Seconds = 31536000, Hsts_Subdomains = True\<rparr>,
              Tls_Hpkp = \<lparr>Hpkp_Seconds = 5184000, Hpkp_Subdomains = False,
                          Hpkp_BackupKeys = [''DEF='']\<rparr>\<rparr>,
      Http_Listen = '':80'', Redirector_Listen = '':8080'',
      Hosts = [\<lparr>Hostnames = [''a.example'', ''b.example''], Handler = ''first''\<rparr>,
               \<lparr>Hostnames = [''localhost'', ''b.example''], Handler = ''second''\<rparr>],
      DefaultHost = ''''\<rparr>"

text \<open>The package-level variables before \<^verbatim>\<open>processConfig\<close>: zero values beside the configuration.\<close>

definition example_globals :: "string globals" where
  "example_globals =
     \<lparr>config = example_config, tlsKeyPair = \<lparr>Certificate = [], Leaf = None\<rparr>,
      hstsHeader = '''', hpkpHeader = '''', logged = []\<rparr>"

text \<open>The same variables after \<^verbatim>\<open>processConfig\<close> (see \<open>example_processConfig\<close> below).\<close>

definition example_started :: "string globals" where
  "example_started =
     \<lparr>config = example_config\<lparr>DefaultHost := ''localhost''\<rparr>,
      tlsKeyPair = \<lparr>Certificate = [[0x30, 0x82]],
                    Leaf = Some \<lparr>RawSubjectPublicKeyInfo = [0x30, 0x82]\<rparr>\<rparr>,
      hstsHeader = ''max-age=31536000; includeSubdomains'',
      hpkpHeader = ''pin-sha256='' @ [CHR 0x22] @ ''ABC='' @ [CHR 0x22] @ ''; pin-sha256=''
                   @ [CHR 0x22] @ ''DEF='' @ [CHR 0x22] @ ''; max-age=5184000'',
      logged = []\<rparr>"

text \<open>A stand-in for \<^verbatim>\<open>glob.Glob\<close>: a lone star matches everything, any other pattern itself.\<close>

definition example_glob :: "string \<Rightarrow> string \<Rightarrow> bool" where
  "example_glob pattern subj = (pattern = ''*'' \<or> pattern = subj)"

definition example_request :: request where
  "example_request =
     \<lparr>Host = ''b.example'', RequestURI = ''/index.html?x=1'',
      URL = \<lparr>Path = ''/index.html'', RawQuery = ''x=1''\<rparr>\<rparr>"


text \<open>Every address can be bound.\<close>

definition example_net_Listen :: "string \<Rightarrow> string option" where
  "example_net_Listen addr = None"

text \<open>A negative HSTS duration, before and after \<^verbatim>\<open>processConfig\<close>.\<close>

definition negative_hsts_globals :: "string globals" where
  "negative_hsts_globals =
     example_globals\<lparr>config := example_config\<lparr>Tls := (Tls example_config)
        \<lparr>Tls_Hsts := \<lparr>Hsts_Seconds = - 1, Hsts_Subdomains = False\<rparr>\<rparr>\<rparr>\<rparr>"

definition negative_hsts_started :: "string globals" where
  "negative_hsts_started =
     example_started\<lparr>config := example_config\<lparr>DefaultHost := ''localhost'',
        Tls := (Tls example_config)\<lparr>Tls_Hsts := \<lparr>Hsts_Seconds = - 1, Hsts_Subdomains = False\<rparr>\<rparr>\<rparr>,
        hstsHeader := ''max-age=-1''\<rparr>"

text \<open>A certificate path without a key path, before and after \<^verbatim>\<open>processConfig\<close>.\<close>

definition cert_only_globals :: "string globals" where
  "cert_only_globals =
     example_globals\<lparr>config := example_config\<lparr>Tls := (Tls example_config)\<lparr>Tls_Key := ''''\<rparr>\<rparr>\<rparr>"

definition cert_only_started :: "string globals" where
  "cert_only_started =
     example_globals\<lparr>config := example_config\<lparr>Tls := (Tls example_config)\<lparr>Tls_Key := ''''\<rparr>,
        DefaultHost := ''localhost''\<rparr>\<rparr>"

text \<open>
  A key pair whose chain has two certificates, the end-entity certificate \<open>[0x01]\<close> first and
  its issuer \<open>[0x02]\<close> after it, with an encoder that tells the two apart.
\<close>

definition chain_load :: "string \<Rightarrow> string \<Rightarrow> string + tls_Certificate" where
  "chain_load certFile keyFile = Inr \<lparr>Certificate = [[0x01], [0x02]], Leaf = None\<rparr>"

definition chain_encode :: "bytes \<Rightarrow> string" where
  "chain_encode b = (if b = [0x01] then ''LEAF'' else ''ISSUER'')"

definition chain_library :: library where
  "chain_library =
     \<lparr>LoadX509KeyPair = chain_load, ParseCertificate = example_parse,
      Sum256 = example_sum256, EncodeToString = chain_encode\<rparr>"

section \<open>The header values computed by processConfig\<close>




lemma set_hstsHeader_fields [simp]:
  "config (set_hstsHeader g) = config g"
  "tlsKeyPair (set_hstsHeader g) = tlsKeyPair g"
  "hpkpHeader (set_hstsHeader g) = hpkpHeader g"
  by (simp_all add: set_hstsHeader_def Let_def)


lemma set_hpkpHeader_fields:
  assumes "set_hpkpHeader lib g = Inr g'"
  shows "config g' = config g" "tlsKeyPair g' = tlsKeyPair g" "hstsHeader g' = hstsHeader g"
  using assms by (auto simp: set_hpkpHeader_def Let_def split: if_splits option.splits)


text \<open>
  What a completed \<open>processConfig\<close> has done when both paths are configured: the key
  pair was loaded, its chain is not empty, the last certificate of the chain was parsed
  and stored in \<open>Leaf\<close>, and the two header blocks ran on that state.
\<close>

lemma processConfig_loaded:
  assumes "processConfig lib g = Inr g'"
    and "Tls_Cert (Tls (config g)) \<noteq> ''''" and "Tls_Key (Tls (config g)) \<noteq> ''''"
  obtains kp cert g1 where
    "LoadX509KeyPair lib (Tls_Cert (Tls (config g))) (Tls_Key (Tls (config g))) = Inr kp"
    "Certificate kp \<noteq> []"
    "ParseCertificate lib (last (Certificate kp)) = Inr cert"
    "Tls (config g1) = Tls (config g)"
    "tlsKeyPair g1 = kp\<lparr>Leaf := Some cert\<rparr>"
    "set_hpkpHeader lib (set_hstsHeader g1) = Inr g'"
proof -
  let ?g1 = "if DefaultHost (config g) = ''''
             then g\<lparr>config := (config g)\<lparr>DefaultHost := ''localhost''\<rparr>\<rparr> else g"
  from assms obtain kp where kp:
    "LoadX509KeyPair lib (Tls_Cert (Tls (config g))) (Tls_Key (Tls (config g))) = Inr kp"
    by (auto simp: processConfig_def Let_def split: sum.splits if_splits)
  from assms kp have ne: "Certificate kp \<noteq> []"
    by (auto simp: processConfig_def Let_def split: sum.splits if_splits)
  from assms kp ne obtain cert where cert:
    "ParseCertificate lib (Certificate kp ! (length (Certificate kp) - 1)) = Inr cert"
    by (auto simp: processConfig_def Let_def split: sum.splits if_splits)
  from assms kp ne cert have
    "set_hpkpHeader lib (set_hstsHeader (?g1\<lparr>tlsKeyPair := kp\<lparr>Leaf := Some cert\<rparr>\<rparr>)) = Inr g'"
    by (auto simp: processConfig_def Let_def split: sum.splits if_splits)
  moreover have "ParseCertificate lib (last (Certificate kp)) = Inr cert"
    using cert ne by (simp add: last_conv_nth)
  ultimately show thesis
    using that[of kp cert "?g1\<lparr>tlsKeyPair := kp\<lparr>Leaf := Some cert\<rparr>\<rparr>"] kp ne by simp
qed

text \<open>The certificate that ends up in \<open>Leaf\<close> is the parse of the last element of the chain.\<close>

lemma processConfig_Leaf_last:
  assumes "processConfig lib g = Inr g'"
    and "Tls_Cert (Tls (config g)) \<noteq> ''''" and "Tls_Key (Tls (config g)) \<noteq> ''''"
  shows "\<exists>kp cert.
           LoadX509KeyPair lib (Tls_Cert (Tls (config g))) (Tls_Key (Tls (config g))) = Inr kp
           \<and> Certificate kp \<noteq> []
           \<and> ParseCertificate lib (last (Certificate kp)) = Inr cert
           \<and> tlsKeyPair g' = kp\<lparr>Leaf := Some cert\<rparr>"
proof -
  from assms obtain kp cert g1 where
    kp: "LoadX509KeyPair lib (Tls_Cert (Tls (config g))) (Tls_Key (Tls (config g))) = Inr kp"
      "Certificate kp \<noteq> []" "ParseCertificate lib (last (Certificate kp)) = Inr cert"
    and g1: "tlsKeyPair g1 = kp\<lparr>Leaf := Some cert\<rparr>"
    and run: "set_hpkpHeader lib (set_hstsHeader g1) = Inr g'"
    by (rule processConfig_loaded)
  have "tlsKeyPair g' = tlsKeyPair (set_hstsHeader g1)"
    using run by (rule set_hpkpHeader_fields)
  with g1 have "tlsKeyPair g' = kp\<lparr>Leaf := Some cert\<rparr>" by simp
  with kp show ?thesis by blast
qed


subsection \<open>Running processConfig on the concrete inputs\<close>

lemmas example_defs =
  example_globals_def example_config_def example_library_def example_load_def
  example_parse_def example_sum256_def example_encode_def

lemmas processConfig_defs =
  processConfig_def set_hpkpHeader_def set_hstsHeader_def Let_def fmt_d_def show_nat.simps
  dquote_def


lemma negative_hsts_processConfig:
  "processConfig example_library negative_hsts_globals = Inr negative_hsts_started"
  by (simp add: processConfig_defs example_defs example_started_def
        negative_hsts_globals_def negative_hsts_started_def)

section \<open>Claims about the header values\<close>

text \<open>
  C1, evaluated on a chain of two certificates. Line 176 parses the element of the chain
  at index \<open>len - 1\<close>, the last one, and stores it in \<open>Leaf\<close>; line 190 hashes the key
  info of that certificate. With the end-entity certificate \<open>[0x01]\<close> first and its issuer
  \<open>[0x02]\<close> last, the certificate stored in \<open>Leaf\<close> and pinned by the header is the
  issuer, not the end-entity certificate of the chain.
\<close>

theorem hpkp_pins_last_chain_certificate:
  "map_sum id tlsKeyPair (processConfig chain_library example_globals)
     = Inr \<lparr>Certificate = [[0x01], [0x02]],
            Leaf = Some \<lparr>RawSubjectPublicKeyInfo = [0x02]\<rparr>\<rparr>
   \<and> map_sum id hpkpHeader (processConfig chain_library example_globals)
     = Inr (''pin-sha256='' @ [CHR 0x22] @ ''ISSUER'' @ [CHR 0x22] @ ''; pin-sha256=''
            @ [CHR 0x22] @ ''DEF='' @ [CHR 0x22] @ ''; max-age=5184000'')"
  by (simp add: processConfig_defs example_defs chain_library_def chain_load_def
        chain_encode_def)





section \<open>Claims about the request handlers\<close>

lemma serve_hostnames_find:
  "serve_hostnames Glob hostcnf hostns r =
     (if list_ex (\<lambda>hostn. Glob hostn (Host r)) hostns
      then Some [ServeHTTP (Handler hostcnf) r] else None)"
  by (induction hostns) auto

lemma serve_hosts_find:
  "serve_hosts Glob hosts r =
     (case find (\<lambda>hostcnf. list_ex (\<lambda>hostn. Glob hostn (Host r)) (Hostnames hostcnf)) hosts of
        None \<Rightarrow> []
      | Some hostcnf \<Rightarrow> [ServeHTTP (Handler hostcnf) r])"
  by (induction hosts) (auto simp: serve_hostnames_find)

lemma httpHandler_calls:
  "c \<in> set (httpHandler Glob g r) \<Longrightarrow> \<exists>h r'. c = ServeHTTP h r'"
  by (auto simp: httpHandler_def serve_hosts_find Let_def split: option.splits)

lemma httpHandler_no_Header_Add: "Header_Add n v \<notin> set (httpHandler Glob g r)"
  using httpHandler_calls by fastforce

lemma httpHandler_shape:
  "httpHandler Glob g r = [] \<or> (\<exists>h r'. httpHandler Glob g r = [ServeHTTP h r'])"
  by (auto simp: httpHandler_def serve_hosts_find Let_def split: option.splits)

lemma httpHandler_no_headers_before:
  "headers_before_serving (httpHandler Glob g r) = []"
  "calls_after_headers (httpHandler Glob g r) = httpHandler Glob g r"
  using httpHandler_shape [of Glob g r] by auto

lemma secHandler_headers_before:
  "headers_before_serving (secHandler Glob g r) =
     (if Hsts_Seconds (Tls_Hsts (Tls (config g))) \<noteq> 0
      then [(''Strict-Transport-Security'', hstsHeader g)] else [])
     @ (if Hpkp_Seconds (Tls_Hpkp (Tls (config g))) \<noteq> 0
        then [(''Public-Key-Pins'', hpkpHeader g)] else [])"
  by (simp add: secHandler_def httpHandler_no_headers_before)

lemma secHandler_calls_after:
  "calls_after_headers (secHandler Glob g r) = httpHandler Glob g r"
  by (simp add: secHandler_def httpHandler_no_headers_before)

text \<open>
  C5, as stated, fails for a negative duration: with \<open>Seconds = -1\<close> the duration is not
  above 0, and the TLS handler adds the header all the same, before the router runs, with
  the value \<open>max-age=-1\<close> that \<open>processConfig\<close> computed.
\<close>

theorem hsts_sent_for_negative_duration:
  "processConfig example_library negative_hsts_globals = Inr negative_hsts_started
   \<and> \<not> 0 < Hsts_Seconds (Tls_Hsts (Tls (config negative_hsts_started)))
   \<and> Header_Add ''Strict-Transport-Security'' ''max-age=-1''
       \<in> set (secHandler example_glob negative_hsts_started example_request)
   \<and> (''Strict-Transport-Security'', ''max-age=-1'')
       \<in> set (headers_before_serving
                (secHandler example_glob negative_hsts_started example_request))"
  using negative_hsts_processConfig
  by (simp add: secHandler_headers_before)
     (simp add: secHandler_def negative_hsts_started_def example_started_def example_config_def)

text \<open>
  C5, amended: the \<open>Strict-Transport-Security\<close> header is among the headers the TLS
  handler has added before the router starts to serve exactly when the configured HSTS
  duration is not 0, and its value then is \<open>hstsHeader\<close>; what the TLS handler does
  after adding its headers is exactly what the router does, and the router never adds
  that header. In particular, with a duration of 0 the header is added at no point of any
  TLS response.
\<close>

theorem hsts_sent_iff_nonzero:
  "((''Strict-Transport-Security'', v) \<in> set (headers_before_serving (secHandler Glob g r))
      \<longleftrightarrow> Hsts_Seconds (Tls_Hsts (Tls (config g))) \<noteq> 0 \<and> v = hstsHeader g)
   \<and> calls_after_headers (secHandler Glob g r) = httpHandler Glob g r
   \<and> Header_Add ''Strict-Transport-Security'' v \<notin> set (httpHandler Glob g r)
   \<and> (Header_Add ''Strict-Transport-Security'' v \<in> set (secHandler Glob g r)
        \<longleftrightarrow> Hsts_Seconds (Tls_Hsts (Tls (config g))) \<noteq> 0 \<and> v = hstsHeader g)"
proof -
  have "(''Strict-Transport-Security'', v) \<in> set (headers_before_serving (secHandler Glob g r))
          \<longleftrightarrow> Hsts_Seconds (Tls_Hsts (Tls (config g))) \<noteq> 0 \<and> v = hstsHeader g"
    by (auto simp: secHandler_headers_before)
  moreover have "Header_Add ''Strict-Transport-Security'' v \<in> set (secHandler Glob g r)
          \<longleftrightarrow> Hsts_Seconds (Tls_Hsts (Tls (config g))) \<noteq> 0 \<and> v = hstsHeader g"
    by (auto simp: secHandler_def httpHandler_no_Header_Add)
  ultimately show ?thesis
    by (simp add: secHandler_calls_after httpHandler_no_Header_Add)
qed

theorem hsts_sent_iff_nonzero_witness:
  "Hsts_Seconds (Tls_Hsts (Tls (config example_started))) \<noteq> 0
   \<and> (''Strict-Transport-Security'', ''max-age=31536000; includeSubdomains'')
       \<in> set (headers_before_serving (secHandler example_glob example_started example_request))
   \<and> calls_after_headers (secHandler example_glob example_started example_request)
       = [ServeHTTP ''first'' example_request]"
proof -
  have "httpHandler example_glob example_started example_request
          = [ServeHTTP ''first'' example_request]"
    by (simp add: httpHandler_def example_started_def example_config_def example_glob_def
          example_request_def)
  with hsts_sent_iff_nonzero [of "''max-age=31536000; includeSubdomains''"
      example_glob example_started example_request]
  show ?thesis
    by (simp add: example_started_def example_config_def)
qed

text \<open>
  C6: the router substitutes the default host name for an empty request host, then
  invokes, once, the handler of the first configured entry one of whose patterns
  matches that host, passing it the request with that host; it does nothing when there is
  no such entry.
\<close>

theorem router_first_match:
  "httpHandler Glob g r =
     (let h = (if Host r = '''' then DefaultHost (config g) else Host r) in
      case find (\<lambda>hostcnf. list_ex (\<lambda>hostn. Glob hostn h) (Hostnames hostcnf))
             (Hosts (config g)) of
        None \<Rightarrow> []
      | Some hostcnf \<Rightarrow> [ServeHTTP (Handler hostcnf) (r\<lparr>Host := h\<rparr>)])"
  by (cases "Host r = ''''")
     (simp_all add: httpHandler_def serve_hosts_find Let_def split: option.splits)

text \<open>Host \<open>b.example\<close> matches the second pattern of the first entry and a pattern of the second entry.\<close>

theorem router_first_match_witness:
  "httpHandler example_glob example_started example_request
     = [ServeHTTP ''first'' example_request]"
  using router_first_match [of example_glob example_started example_request]
  by (simp add: example_started_def example_config_def example_glob_def example_request_def)

text \<open>
  C7: when no pattern of any entry matches the request host (the default host name
  when the request has none), the router makes no call at all: no backend handler is
  invoked and nothing is written to the response.
\<close>

theorem router_no_match:
  assumes "\<forall>hostcnf \<in> set (Hosts (config g)). \<forall>hostn \<in> set (Hostnames hostcnf).
             \<not> Glob hostn (if Host r = '''' then DefaultHost (config g) else Host r)"
  shows "httpHandler Glob g r = []"
proof -
  let ?h = "if Host r = '''' then DefaultHost (config g) else Host r"
  have "find (\<lambda>hostcnf. list_ex (\<lambda>hostn. Glob hostn ?h) (Hostnames hostcnf))
          (Hosts (config g)) = None"
    using assms by (simp add: find_None_iff list_ex_iff)
  then show ?thesis
    by (cases "Host r = ''''") (simp_all add: httpHandler_def serve_hosts_find Let_def)
qed

theorem router_no_match_witness:
  "httpHandler example_glob example_started (example_request\<lparr>Host := ''c.example''\<rparr>) = []"
  using router_no_match [where g = example_started and Glob = example_glob
      and r = "example_request\<lparr>Host := ''c.example''\<rparr>"]
  by (simp add: example_started_def example_config_def example_glob_def example_request_def)

text \<open>
  C8: the handlers of the plain-HTTP endpoint and of the redirector endpoint add
  neither a \<open>Strict-Transport-Security\<close> nor a \<open>Public-Key-Pins\<close> header, whatever the
  configuration. The handler of the TLS endpoint adds each of the two, with the value
  computed at startup, when its configured duration is not 0, and it adds them before the
  router serves: the headers in place when the router starts are exactly these, and what
  follows them is exactly what the plain-HTTP endpoint does.
\<close>

theorem security_headers_only_on_tls:
  "(ep \<noteq> TLS_server \<longrightarrow>
      Header_Add ''Strict-Transport-Security'' v \<notin> set (endpoint_handler Glob g ep r) \<and>
      Header_Add ''Public-Key-Pins'' v \<notin> set (endpoint_handler Glob g ep r))
   \<and> (Hsts_Seconds (Tls_Hsts (Tls (config g))) \<noteq> 0 \<longrightarrow>
        Header_Add ''Strict-Transport-Security'' (hstsHeader g)
          \<in> set (endpoint_handler Glob g TLS_server r))
   \<and> (Hpkp_Seconds (Tls_Hpkp (Tls (config g))) \<noteq> 0 \<longrightarrow>
        Header_Add ''Public-Key-Pins'' (hpkpHeader g)
          \<in> set (endpoint_handler Glob g TLS_server r))
   \<and> headers_before_serving (endpoint_handler Glob g TLS_server r) =
        (if Hsts_Seconds (Tls_Hsts (Tls (config g))) \<noteq> 0
         then [(''Strict-Transport-Security'', hstsHeader g)] else [])
        @ (if Hpkp_Seconds (Tls_Hpkp (Tls (config g))) \<noteq> 0
           then [(''Public-Key-Pins'', hpkpHeader g)] else [])
   \<and> calls_after_headers (endpoint_handler Glob g TLS_server r)
        = endpoint_handler Glob g HTTP_server r"
proof -
  have "ep \<noteq> TLS_server \<longrightarrow>
      Header_Add ''Strict-Transport-Security'' v \<notin> set (endpoint_handler Glob g ep r) \<and>
      Header_Add ''Public-Key-Pins'' v \<notin> set (endpoint_handler Glob g ep r)"
    by (cases ep) (auto simp: redirHandler_def httpHandler_no_Header_Add)
  moreover have "Hsts_Seconds (Tls_Hsts (Tls (config g))) \<noteq> 0 \<longrightarrow>
        Header_Add ''Strict-Transport-Security'' (hstsHeader g)
          \<in> set (endpoint_handler Glob g TLS_server r)"
    by (simp add: secHandler_def)
  moreover have "Hpkp_Seconds (Tls_Hpkp (Tls (config g))) \<noteq> 0 \<longrightarrow>
        Header_Add ''Public-Key-Pins'' (hpkpHeader g)
          \<in> set (endpoint_handler Glob g TLS_server r)"
    by (simp add: secHandler_def)
  ultimately show ?thesis
    by (simp add: secHandler_headers_before secHandler_calls_after)
qed

theorem security_headers_only_on_tls_witness:
  "HTTP_server \<noteq> TLS_server
   \<and> Hsts_Seconds (Tls_Hsts (Tls (config example_started))) \<noteq> 0
   \<and> Hpkp_Seconds (Tls_Hpkp (Tls (config example_started))) \<noteq> 0
   \<and> Header_Add ''Strict-Transport-Security'' (hstsHeader example_started)
       \<notin> set (endpoint_handler example_glob example_started HTTP_server example_request)
   \<and> Header_Add ''Public-Key-Pins'' (hpkpHeader example_started)
       \<notin> set (endpoint_handler example_glob example_started HTTP_server example_request)
   \<and> headers_before_serving
         (endpoint_handler example_glob example_started TLS_server example_request)
       = [(''Strict-Transport-Security'', hstsHeader example_started),
          (''Public-Key-Pins'', hpkpHeader example_started)]
   \<and> calls_after_headers
         (endpoint_handler example_glob example_started TLS_server example_request)
       = [ServeHTTP ''first'' example_request]"
proof -
  have cfg: "Hsts_Seconds (Tls_Hsts (Tls (config example_started))) \<noteq> 0"
    "Hpkp_Seconds (Tls_Hpkp (Tls (config example_started))) \<noteq> 0"
    by (simp_all add: example_started_def example_config_def)
  have route: "httpHandler example_glob example_started example_request
          = [ServeHTTP ''first'' example_request]"
    by (simp add: httpHandler_def example_started_def example_config_def example_glob_def
          example_request_def)
  from security_headers_only_on_tls
         [of HTTP_server "hstsHeader example_started" example_glob example_started example_request]
       security_headers_only_on_tls
         [of HTTP_server "hpkpHeader example_started" example_glob example_started example_request]
       cfg route
  show ?thesis by simp
qed






section \<open>Claims about the TLS endpoint task\<close>

lemma tls_task_skipped_iff:
  "(\<forall>addr. Net_Listen addr \<notin> set (tls_task net_Listen g))
     \<longleftrightarrow> Tls_Listen (Tls (config g)) = ''''
          \<or> (Tls_Cert (Tls (config g)) = '''' \<and> Tls_Key (Tls (config g)) = '''')"
  by (auto simp: tls_task_def listen_and_serve_def Let_def split: option.splits)

text \<open>
  C2, evaluated on a configuration with a listen address and a certificate path but no
  key path: \<open>processConfig\<close> loads no key pair for it (\<open>tlsKeyPair\<close> keeps its zero
  value), and the TLS task does not return early: it binds the address and serves.
\<close>

theorem tls_task_serves_without_key:
  "Tls_Key (Tls (config cert_only_globals)) = ''''
   \<and> processConfig example_library cert_only_globals = Inr cert_only_started
   \<and> tlsKeyPair cert_only_started = \<lparr>Certificate = [], Leaf = None\<rparr>
   \<and> tls_task example_net_Listen cert_only_started
       = [Net_Listen '':443'',
          Log_Printf ''Starting the TLS server on tcp :443\<newline>'',
          Srv_Serve TLS_server '':443'']"
  by (simp add: cert_only_globals_def cert_only_started_def example_globals_def
        example_config_def processConfig_def tls_task_def listen_and_serve_def
        example_net_Listen_def Let_def)

end
